theory Spec2Isabelle
  imports Complex_Main "HOL-Library.Sublist" "HOL-Library.List_Lexorder"
begin

section \<open>Strings\<close>

text \<open>
  A Python \<^verbatim>\<open>str\<close> (and a Cypher string) is a sequence of Unicode code points; a
  code point is a natural number here. \<open>str\<close> reads an ASCII literal as such a
  sequence.
\<close>

type_synonym pystr = "nat list"

definition str :: "string \<Rightarrow> pystr" where
  "str s = map of_char s"

text \<open>
  Cypher's \<^verbatim>\<open>toLower\<close> is a function of the database, not of this repository: the
  queries below take it as the parameter \<open>toLower\<close> and are modelled for whatever
  function on strings it is. \<open>ascii_lower\<close> is the instance the scenarios use: it
  folds \<open>A..Z\<close> and is what the database computes on the ASCII names of the
  scenarios.
\<close>

definition ascii_lower_cp :: "nat \<Rightarrow> nat" where
  "ascii_lower_cp c = (if 65 \<le> c \<and> c \<le> 90 then c + 32 else c)"

definition ascii_lower :: "pystr \<Rightarrow> pystr" where
  "ascii_lower s = map ascii_lower_cp s"

text \<open>Cypher's \<^verbatim>\<open>hay CONTAINS needle\<close>: the needle occurs in the hay as a block.\<close>

fun starts_with :: "'a list \<Rightarrow> 'a list \<Rightarrow> bool" where
  "starts_with hay [] = True"
| "starts_with [] (n # ns) = False"
| "starts_with (h # hs) (n # ns) = (h = n \<and> starts_with hs ns)"

fun contains :: "'a list \<Rightarrow> 'a list \<Rightarrow> bool" where
  "contains [] needle = (needle = [])"
| "contains (h # hs) needle = (starts_with (h # hs) needle \<or> contains hs needle)"

section \<open>The record store\<close>

text \<open>
  The graph database as the queries of \<^verbatim>\<open>neo4j_client.py\<close> see it. Every node is
  created by \<^verbatim>\<open>MERGE\<close> on its key (a Child on \<open>child_id\<close>, a Medication and a
  Symptom on \<open>name\<close>), so the nodes of a label are a finite map from the key to the
  node's properties. Relationships are lists (two relationships may carry the same
  properties) and name their end nodes by key. Time stamps count nanoseconds.
\<close>

record child_node =
  c_name :: pystr
  c_age :: int
  c_weight_kg :: real
  c_allergies :: "pystr list"

record medication_node =
  m_dosage :: "pystr option"
  m_frequency :: "pystr option"
  m_forms :: "pystr list option"
  m_use_description :: "pystr option"
  m_safety_info :: "pystr option"
  m_storage :: "pystr option"
  m_notes :: "pystr option"
  m_source :: "pystr option"

record takes_rel =
  tk_child :: pystr
  tk_med :: pystr
  tk_start_date :: pystr
  tk_dosage :: pystr
  tk_active :: bool

record has_symptom_rel =
  hs_child :: pystr
  hs_symptom :: pystr
  hs_reported_date :: int
  hs_severity :: int
  hs_notes :: pystr

record interacts_rel =
  iw_from :: pystr
  iw_to :: pystr
  iw_severity :: pystr
  iw_description :: pystr

record sample_dialogue =
  d_query :: "pystr option"
  d_expected_answer :: "pystr option"
  d_source :: pystr

record graph =
  children :: "pystr \<rightharpoonup> child_node"
  medications :: "pystr \<rightharpoonup> medication_node"
  symptoms :: "pystr set"
  takes :: "takes_rel list"
  has_symptom :: "has_symptom_rel list"
  interacts_with :: "interacts_rel list"
  dialogues :: "sample_dialogue list"

definition empty_graph :: graph where
  "empty_graph = \<lparr>children = Map.empty, medications = Map.empty, symptoms = {},
     takes = [], has_symptom = [], interacts_with = [], dialogues = []\<rparr>"

text \<open>
  \<^verbatim>\<open>Result.single()\<close> of the driver: no record gives \<open>None\<close>; otherwise the first
  record (with a warning when there are more).
\<close>

fun single :: "'a list \<Rightarrow> 'a option" where
  "single [] = None"
| "single (r # rs) = Some r"

datatype py_error =
  ValueError pystr
| TypeError
| AttributeError
| KeyError pystr
| StoreError

section \<open>Emergency status\<close>

text \<open>The length of \<^verbatim>\<open>duration('PT24H')\<close>, in nanoseconds.\<close>

definition PT24H :: int where
  "PT24H = 86400000000000"

record symptom_entry =
  se_name :: pystr
  se_severity :: int

record emergency_status =
  is_emergency :: bool
  critical_symptoms :: "symptom_entry list"
  recent_symptoms :: "symptom_entry list"

text \<open>
  \<^verbatim>\<open>MATCH (c:Child {child_id: $child_id})-[h:HAS_SYMPTOM]->(s:Symptom)\<close>: one row
  per relationship that leaves the child and ends in a Symptom node. A row holds the
  child's key and the relationship (whose \<open>hs_symptom\<close> is \<open>s.name\<close>).
\<close>

definition match_has_symptom :: "graph \<Rightarrow> pystr \<Rightarrow> (pystr \<times> has_symptom_rel) list" where
  "match_has_symptom g child_id =
     (case children g child_id of
        None \<Rightarrow> []
      | Some c \<Rightarrow>
          map (\<lambda>h. (child_id, h))
            (filter (\<lambda>h. hs_child h = child_id \<and> hs_symptom h \<in> symptoms g) (has_symptom g)))"

text \<open>\<^verbatim>\<open>WHERE h.reported_date > datetime() - duration('PT24H')\<close>\<close>

definition in_window :: "int \<Rightarrow> has_symptom_rel \<Rightarrow> bool" where
  "in_window now h = (hs_reported_date h > now - PT24H)"

text \<open>
  \<^verbatim>\<open>WITH c, collect({name: s.name, severity: h.severity}) as recent_symptoms\<close>:
  the rows are grouped by \<open>c\<close>, one output row per group; no input row, no group.
\<close>

definition collect_by_child ::
    "(pystr \<times> has_symptom_rel) list \<Rightarrow> (pystr \<times> symptom_entry list) list" where
  "collect_by_child rows =
     map (\<lambda>c. (c, map (\<lambda>(c', h). \<lparr>se_name = hs_symptom h, se_severity = hs_severity h\<rparr>)
                    (filter (\<lambda>(c', h). c' = c) rows)))
         (remdups (map fst rows))"

text \<open>
  The two \<^verbatim>\<open>WITH\<close> clauses and the \<^verbatim>\<open>RETURN\<close> of the query of
  \<^verbatim>\<open>check_emergency_status\<close>.
\<close>

definition emergency_query :: "graph \<Rightarrow> int \<Rightarrow> pystr \<Rightarrow> emergency_status list" where
  "emergency_query g now child_id =
     map (\<lambda>(c, recent).
            let critical = filter (\<lambda>sx. se_severity sx \<ge> 8) recent
            in \<lparr>is_emergency = (length critical > 0),
                critical_symptoms = critical,
                recent_symptoms = recent\<rparr>)
         (collect_by_child
            (filter (\<lambda>(c, h). in_window now h) (match_has_symptom g child_id)))"

definition check_emergency_status :: "graph \<Rightarrow> int \<Rightarrow> pystr \<Rightarrow> emergency_status" where
  "check_emergency_status g now child_id =
     (case single (emergency_query g now child_id) of
        None \<Rightarrow> \<lparr>is_emergency = False, critical_symptoms = [], recent_symptoms = []\<rparr>
      | Some record \<Rightarrow> record)"

text \<open>
  The symptom reports of a child that the query reads as recent: the reports of the
  stored child, on a Symptom node, dated within the last 24 hours of \<open>now\<close>.
\<close>

definition windowed_reports :: "graph \<Rightarrow> int \<Rightarrow> pystr \<Rightarrow> has_symptom_rel list" where
  "windowed_reports g now child_id =
     filter (\<lambda>h. child_id \<in> dom (children g) \<and> hs_child h = child_id
                 \<and> hs_symptom h \<in> symptoms g \<and> now - PT24H < hs_reported_date h)
            (has_symptom g)"

definition entry_of :: "has_symptom_rel \<Rightarrow> symptom_entry" where
  "entry_of h = \<lparr>se_name = hs_symptom h, se_severity = hs_severity h\<rparr>"

section \<open>Writing records\<close>

text \<open>
  \<^verbatim>\<open>create_or_update_child\<close>: \<^verbatim>\<open>MERGE (c:Child {child_id: $child_id}) SET ...\<close>, with
  \<^verbatim>\<open>allergies or []\<close> for the list. (The node's \<open>updated_at\<close> stamp is left out: no
  query reads it.)
\<close>

definition create_or_update_child ::
    "graph \<Rightarrow> pystr \<Rightarrow> pystr \<Rightarrow> int \<Rightarrow> real \<Rightarrow> pystr list option \<Rightarrow> graph" where
  "create_or_update_child g child_id name age weight_kg allergies =
     g\<lparr>children := (children g)(child_id \<mapsto>
          \<lparr>c_name = name, c_age = age, c_weight_kg = weight_kg,
           c_allergies = (case allergies of None \<Rightarrow> [] | Some a \<Rightarrow> a)\<rparr>)\<rparr>"

definition blank_medication :: medication_node where
  "blank_medication = \<lparr>m_dosage = None, m_frequency = None, m_forms = None,
     m_use_description = None, m_safety_info = None, m_storage = None, m_notes = None,
     m_source = None\<rparr>"

text \<open>\<^verbatim>\<open>MERGE (m:Medication {name: $name})\<close>: the node, made when it is not there.\<close>

definition merge_medication :: "graph \<Rightarrow> pystr \<Rightarrow> graph" where
  "merge_medication g name =
     (case medications g name of
        Some m \<Rightarrow> g
      | None \<Rightarrow> g\<lparr>medications := (medications g)(name \<mapsto> blank_medication)\<rparr>)"

text \<open>
  \<^verbatim>\<open>add_medication\<close>. Without the child the \<^verbatim>\<open>MATCH\<close> gives no row, nothing is
  written and \<^verbatim>\<open>record["c"]\<close> on \<^verbatim>\<open>None\<close> raises. \<open>now_iso\<close> is
  \<^verbatim>\<open>datetime.now().isoformat()\<close>. The \<^verbatim>\<open>TAKES\<close> relationship is merged on its three
  properties, \<open>active\<close> always true.
\<close>

definition add_medication ::
    "graph \<Rightarrow> pystr \<Rightarrow> pystr \<Rightarrow> pystr \<Rightarrow> pystr \<Rightarrow> pystr \<Rightarrow> pystr option \<Rightarrow> py_error + graph" where
  "add_medication g now_iso child_id medication_name dosage frequency start_date =
     (let start = (case start_date of None \<Rightarrow> now_iso
                   | Some d \<Rightarrow> if d = [] then now_iso else d)
      in case children g child_id of
           None \<Rightarrow> Inl TypeError
         | Some c \<Rightarrow>
             let g1 = merge_medication g medication_name;
                 m = (case medications g1 medication_name of
                        None \<Rightarrow> blank_medication | Some m \<Rightarrow> m);
                 g2 = g1\<lparr>medications := (medications g1)(medication_name \<mapsto>
                        m\<lparr>m_dosage := Some dosage, m_frequency := Some frequency\<rparr>)\<rparr>;
                 t = \<lparr>tk_child = child_id, tk_med = medication_name, tk_start_date = start,
                      tk_dosage = dosage, tk_active = True\<rparr>
             in Inr (if t \<in> set (takes g2) then g2 else g2\<lparr>takes := takes g2 @ [t]\<rparr>))"

text \<open>
  \<^verbatim>\<open>log_symptom\<close>: \<^verbatim>\<open>MERGE\<close> the Symptom node, \<^verbatim>\<open>CREATE\<close> the relationship with
  \<^verbatim>\<open>reported_date: datetime()\<close> and the severity and notes as passed. Without the
  child nothing is written and \<^verbatim>\<open>record["c"]\<close> raises.
\<close>

definition log_symptom ::
    "graph \<Rightarrow> int \<Rightarrow> pystr \<Rightarrow> pystr \<Rightarrow> int \<Rightarrow> pystr \<Rightarrow> py_error + graph" where
  "log_symptom g now child_id symptom_name severity notes =
     (case children g child_id of
        None \<Rightarrow> Inl TypeError
      | Some c \<Rightarrow>
          Inr (g\<lparr>symptoms := insert symptom_name (symptoms g),
                 has_symptom := has_symptom g @
                   [\<lparr>hs_child = child_id, hs_symptom = symptom_name, hs_reported_date = now,
                     hs_severity = severity, hs_notes = notes\<rparr>]\<rparr>))"

text \<open>
  \<^verbatim>\<open>initialize_knowledge_graph\<close>: for each listed interaction, merge both Medication
  nodes and the relationship from the first to the second.
\<close>

definition merge_interaction :: "graph \<Rightarrow> pystr \<times> pystr \<times> pystr \<times> pystr \<Rightarrow> graph" where
  "merge_interaction g interaction =
     (case interaction of (n1, n2, sev, descr) \<Rightarrow>
        let g1 = merge_medication g n1;
            g2 = merge_medication g1 n2;
            i = \<lparr>iw_from = n1, iw_to = n2, iw_severity = sev, iw_description = descr\<rparr>
        in if i \<in> set (interacts_with g2) then g2
           else g2\<lparr>interacts_with := interacts_with g2 @ [i]\<rparr>)"

definition known_interactions :: "(pystr \<times> pystr \<times> pystr \<times> pystr) list" where
  "known_interactions =
     [(str ''Ibuprofen'', str ''Aspirin'', str ''moderate'', str ''Increased bleeding risk''),
      (str ''Amoxicillin'', str ''Warfarin'', str ''high'', str ''May increase bleeding'')]"

definition initialize_knowledge_graph :: "graph \<Rightarrow> graph" where
  "initialize_knowledge_graph g = foldl merge_interaction g known_interactions"

section \<open>Medication safety\<close>

record interaction_entry =
  ie_current_med :: pystr
  ie_severity :: pystr
  ie_description :: pystr

record safety_verdict =
  safe :: bool
  has_allergy :: bool
  allergies :: "pystr list"
  interactions :: "interaction_entry list"

text \<open>
  The allergy query: the child's row, kept when
  \<^verbatim>\<open>any(allergy IN c.allergies WHERE toLower($medication_name) CONTAINS toLower(allergy))\<close>.
\<close>

definition allergy_query ::
    "(pystr \<Rightarrow> pystr) \<Rightarrow> graph \<Rightarrow> pystr \<Rightarrow> pystr \<Rightarrow> (pystr list \<times> bool) list" where
  "allergy_query toLower g child_id medication_name =
     (case children g child_id of
        None \<Rightarrow> []
      | Some c \<Rightarrow>
          if list_ex (\<lambda>allergy. contains (toLower medication_name) (toLower allergy))
               (c_allergies c)
          then [(c_allergies c, True)] else [])"

text \<open>
  The interaction query: every \<^verbatim>\<open>TAKES\<close> relationship of the child to a Medication
  node \<open>current\<close> (the pattern has no condition on \<open>active\<close>), the Medication node
  \<open>new\<close> of the candidate's name, and every \<^verbatim>\<open>INTERACTS_WITH\<close> relationship between
  the two, in either direction.
\<close>

definition interaction_query :: "graph \<Rightarrow> pystr \<Rightarrow> pystr \<Rightarrow> interaction_entry list" where
  "interaction_query g child_id medication_name =
     (case children g child_id of
        None \<Rightarrow> []
      | Some c \<Rightarrow>
          [\<lparr>ie_current_med = tk_med t, ie_severity = iw_severity i,
            ie_description = iw_description i\<rparr>.
             t \<leftarrow> takes g, tk_child t = child_id, tk_med t \<in> dom (medications g),
             medication_name \<in> dom (medications g),
             i \<leftarrow> interacts_with g,
             (iw_from i = tk_med t \<and> iw_to i = medication_name)
               \<or> (iw_from i = medication_name \<and> iw_to i = tk_med t)])"

definition check_medication_safety ::
    "(pystr \<Rightarrow> pystr) \<Rightarrow> graph \<Rightarrow> pystr \<Rightarrow> pystr \<Rightarrow> safety_verdict" where
  "check_medication_safety toLower g child_id medication_name =
     (let allergy_record = single (allergy_query toLower g child_id medication_name);
          interactions = interaction_query g child_id medication_name
      in \<lparr>safe = (allergy_record = None \<and> length interactions = 0),
          has_allergy = (allergy_record \<noteq> None),
          allergies = (case allergy_record of None \<Rightarrow> [] | Some r \<Rightarrow> fst r),
          interactions = interactions\<rparr>)"

record active_medication =
  am_medication :: pystr
  am_dosage :: pystr
  am_frequency :: "pystr option"
  am_start_date :: pystr

text \<open>
  \<^verbatim>\<open>get_active_medications\<close>: the child's \<^verbatim>\<open>TAKES\<close> relationships
  \<^verbatim>\<open>WHERE t.active = true\<close>, latest start date first. A \<^verbatim>\<open>TAKES\<close> relationship has
  no \<open>frequency\<close> property, so \<^verbatim>\<open>t.frequency\<close> is null.
\<close>

definition get_active_medications :: "graph \<Rightarrow> pystr \<Rightarrow> active_medication list" where
  "get_active_medications g child_id =
     (case children g child_id of
        None \<Rightarrow> []
      | Some c \<Rightarrow>
          map (\<lambda>t. \<lparr>am_medication = tk_med t, am_dosage = tk_dosage t, am_frequency = None,
                     am_start_date = tk_start_date t\<rparr>)
            (rev (sort_key tk_start_date
               (filter (\<lambda>t. tk_child t = child_id \<and> tk_med t \<in> dom (medications g)
                          \<and> tk_active t = True) (takes g)))))"

section \<open>Dataset ingestion\<close>

text \<open>
  A line of \<^verbatim>\<open>medication_guides.jsonl\<close> after \<^verbatim>\<open>json.loads\<close>; \<open>None\<close> is a
  missing key.
\<close>

record medication_guide =
  mg_drug :: "pystr option"
  mg_forms :: "pystr list option"
  mg_use :: "pystr option"
  mg_safety :: "pystr option"
  mg_storage :: "pystr option"
  mg_notes :: "pystr option"

definition get_or :: "'a option \<Rightarrow> 'a \<Rightarrow> 'a" where
  "get_or v d = (case v of None \<Rightarrow> d | Some x \<Rightarrow> x)"

text \<open>
  The body of the medication loop: \<^verbatim>\<open>MERGE (m:Medication {name: $drug}) SET ...\<close>.
  The database refuses to merge on a null \<open>name\<close>.
\<close>

definition load_medication_guide :: "graph \<Rightarrow> medication_guide \<Rightarrow> py_error + graph" where
  "load_medication_guide g data =
     (case mg_drug data of
        None \<Rightarrow> Inl StoreError
      | Some drug \<Rightarrow>
          let g1 = merge_medication g drug;
              m = (case medications g1 drug of None \<Rightarrow> blank_medication | Some m \<Rightarrow> m)
          in Inr (g1\<lparr>medications := (medications g1)(drug \<mapsto>
                m\<lparr>m_forms := Some (get_or (mg_forms data) []),
                  m_use_description := Some (get_or (mg_use data) []),
                  m_safety_info := Some (get_or (mg_safety data) []),
                  m_storage := Some (get_or (mg_storage data) []),
                  m_notes := Some (get_or (mg_notes data) []),
                  m_source := Some (str ''dataset'')\<rparr>)\<rparr>))"

fun load_medication_guides :: "graph \<Rightarrow> medication_guide list \<Rightarrow> py_error + graph" where
  "load_medication_guides g [] = Inr g"
| "load_medication_guides g (data # rest) =
     (case load_medication_guide g data of
        Inl e \<Rightarrow> Inl e
      | Inr g' \<Rightarrow> load_medication_guides g' rest)"

text \<open>A line of \<^verbatim>\<open>dialogues.jsonl\<close> after \<^verbatim>\<open>json.loads\<close>.\<close>

record dialogue_line =
  dl_query :: "pystr option"
  dl_expected_answer :: "pystr option"

text \<open>The body of the dialogue loop: \<^verbatim>\<open>CREATE (d:SampleDialogue {...})\<close>.\<close>

definition load_dialogue :: "graph \<Rightarrow> dialogue_line \<Rightarrow> graph" where
  "load_dialogue g data =
     g\<lparr>dialogues := dialogues g @
         [\<lparr>d_query = dl_query data, d_expected_answer = dl_expected_answer data,
           d_source = str ''dataset''\<rparr>]\<rparr>"

definition load_dialogues :: "graph \<Rightarrow> dialogue_line list \<Rightarrow> graph" where
  "load_dialogues g file_lines = foldl load_dialogue g file_lines"

section \<open>Prompt assembly\<close>

text \<open>
  A value held in a dictionary of graph data. The renderer looks at a value through
  its truth value and through the text an f-string gives for it, so any object other
  than \<^verbatim>\<open>None\<close>, a bool, an int or a string is \<open>PObj t s\<close>: its truth value \<open>t\<close>
  and its text \<open>s\<close> (the float \<^verbatim>\<open>18.5\<close> is \<open>PObj True (str ''18.5'')\<close>).
\<close>

datatype pyval = PNone | PBool bool | PInt int | PStr pystr | PObj bool pystr

fun truthy :: "pyval \<Rightarrow> bool" where
  "truthy PNone = False"
| "truthy (PBool b) = b"
| "truthy (PInt i) = (i \<noteq> 0)"
| "truthy (PStr s) = (s \<noteq> [])"
| "truthy (PObj t s) = t"

fun digits :: "nat \<Rightarrow> pystr" where
  "digits n = (if n < 10 then [48 + n] else digits (n div 10) @ [48 + n mod 10])"

declare digits.simps [simp del]

definition str_int :: "int \<Rightarrow> pystr" where
  "str_int i = (if i < 0 then 45 # digits (nat (- i)) else digits (nat i))"

text \<open>The text of \<^verbatim>\<open>{value}\<close> in an f-string.\<close>

fun py_format :: "pyval \<Rightarrow> pystr" where
  "py_format PNone = str ''None''"
| "py_format (PBool b) = (if b then str ''True'' else str ''False'')"
| "py_format (PInt i) = str_int i"
| "py_format (PStr s) = s"
| "py_format (PObj t s) = s"

text \<open>\<^verbatim>\<open>d.get(key)\<close>, the key's value being \<open>v\<close> (\<open>None\<close> for a missing key).\<close>

definition py_get :: "pyval option \<Rightarrow> pyval" where
  "py_get v = (case v of None \<Rightarrow> PNone | Some x \<Rightarrow> x)"

text \<open>\<^verbatim>\<open>d.get(key, default)\<close>\<close>

definition py_get_default :: "pyval option \<Rightarrow> pyval \<Rightarrow> pyval" where
  "py_get_default v d = (case v of None \<Rightarrow> d | Some x \<Rightarrow> x)"

text \<open>\<^verbatim>\<open>sep.join(xs)\<close>\<close>

fun join :: "pystr \<Rightarrow> pystr list \<Rightarrow> pystr" where
  "join sep [] = []"
| "join sep [x] = x"
| "join sep (x # y # ys) = x @ sep @ join sep (y # ys)"

text \<open>
  A key whose value the renderer uses without a test for truth: missing, bound to
  \<^verbatim>\<open>None\<close> (what \<^verbatim>\<open>get_child_profile\<close> returns for an unknown child), or bound to
  a value.
\<close>

datatype 'a entry = Absent | Null | Present 'a

text \<open>
  The dictionaries of graph data, a field per key the renderer reads; \<open>None\<close> is a
  missing key. A list-valued key that the renderer tests for truth before it reads
  it is \<open>None\<close> also when it holds \<^verbatim>\<open>None\<close>. The list \<open>critical_symptoms\<close> is
  iterated untested, so it is an \<open>entry\<close>.
\<close>

record child_dict =
  cd_name :: "pyval option"
  cd_age :: "pyval option"
  cd_weight_kg :: "pyval option"
  cd_allergies :: "pystr list option"

record med_dict =
  md_medication :: "pyval option"
  md_dosage :: "pyval option"
  md_frequency :: "pyval option"

record symptom_dict =
  sd_name :: "pyval option"
  sd_severity :: "pyval option"

record emergency_dict =
  ed_is_emergency :: "pyval option"
  ed_critical_symptoms :: "symptom_dict list entry"

record appointment_dict =
  ad_date :: "pyval option"
  ad_time :: "pyval option"
  ad_type :: "pyval option"
  ad_doctor :: "pyval option"

record interaction_dict =
  id_current_med :: "pyval option"
  id_description :: "pyval option"
  id_severity :: "pyval option"

record safety_dict =
  sf_safe :: "pyval option"
  sf_has_allergy :: "pyval option"
  sf_allergies :: "pyval option"
  sf_interactions :: "interaction_dict list option"

record graph_data =
  gd_child :: "child_dict entry"
  gd_medications :: "med_dict list option"
  gd_symptoms :: "symptom_dict list option"
  gd_emergency_status :: "emergency_dict entry"
  gd_appointments :: "appointment_dict list option"
  gd_medication_safety :: "safety_dict entry"

definition empty_graph_data :: graph_data where
  "empty_graph_data = \<lparr>gd_child = Absent, gd_medications = None, gd_symptoms = None,
     gd_emergency_status = Absent, gd_appointments = None, gd_medication_safety = Absent\<rparr>"

text \<open>The section headers; each begins with its pictograph's code points.\<close>

definition child_header :: pystr where
  "child_header = [0x1F476, 32] @ str ''CHILD INFORMATION:''"

definition medications_header :: pystr where
  "medications_header = [0x1F48A, 32] @ str ''CURRENT MEDICATIONS:''"

definition symptoms_header :: pystr where
  "symptoms_header = [0x1FA7A, 32] @ str ''RECENT SYMPTOMS (last 24h):''"

definition emergency_header :: pystr where
  "emergency_header = [0x1F6A8, 32] @ str ''EMERGENCY STATUS: CRITICAL SYMPTOMS DETECTED''"

definition appointments_header :: pystr where
  "appointments_header = [0x1F4C5, 32] @ str ''UPCOMING APPOINTMENTS:''"

definition safety_header :: pystr where
  "safety_header = [0x26A0, 0xFE0F, 32] @ str ''MEDICATION SAFETY ALERT:''"

text \<open>
  The blocks of \<^verbatim>\<open>_format_graph_data\<close>, in the order of the source. Each takes the
  list \<open>sections\<close> built so far and returns it with its lines appended, or the
  exception of \<^verbatim>\<open>.get\<close> on \<^verbatim>\<open>None\<close> or of the loop over \<^verbatim>\<open>None\<close>.
\<close>

definition add_child :: "graph_data \<Rightarrow> pystr list \<Rightarrow> py_error + pystr list" where
  "add_child gd sections =
     (case gd_child gd of
        Absent \<Rightarrow> Inr sections
      | Null \<Rightarrow> Inl AttributeError
      | Present child \<Rightarrow>
          let s1 = sections @ [child_header];
              s2 = s1 @ [str ''- Name: ''
                         @ py_format (py_get_default (cd_name child) (PStr (str ''Unknown'')))];
              s3 = s2 @ [str ''- Age: ''
                         @ py_format (py_get_default (cd_age child) (PStr (str ''Unknown'')))
                         @ str '' years old''];
              s4 = s3 @ [str ''- Weight: ''
                         @ py_format (py_get_default (cd_weight_kg child) (PStr (str ''Unknown'')))
                         @ str '' kg''];
              allergies = get_or (cd_allergies child) [];
              s5 = (if allergies \<noteq> []
                    then s4 @ [str ''- '' @ [0x26A0, 0xFE0F] @ str '' ALLERGIES: ''
                               @ join (str '', '') allergies]
                    else s4)
          in Inr (s5 @ [[]]))"

definition med_line :: "med_dict \<Rightarrow> pystr" where
  "med_line med = str ''- '' @ py_format (py_get (md_medication med)) @ str '': ''
     @ py_format (py_get (md_dosage med)) @ str '' - '' @ py_format (py_get (md_frequency med))"

definition add_medications :: "graph_data \<Rightarrow> pystr list \<Rightarrow> pystr list" where
  "add_medications gd sections =
     (case gd_medications gd of
        None \<Rightarrow> sections
      | Some meds \<Rightarrow>
          if meds \<noteq> []
          then foldl (\<lambda>s med. s @ [med_line med]) (sections @ [medications_header]) meds @ [[]]
          else sections)"

definition symptom_line :: "symptom_dict \<Rightarrow> pystr" where
  "symptom_line symptom = str ''- '' @ py_format (py_get (sd_name symptom))
     @ str '': Severity '' @ py_format (py_get (sd_severity symptom)) @ str ''/10''"

definition add_symptoms :: "graph_data \<Rightarrow> pystr list \<Rightarrow> pystr list" where
  "add_symptoms gd sections =
     (case gd_symptoms gd of
        None \<Rightarrow> sections
      | Some syms \<Rightarrow>
          if syms \<noteq> []
          then foldl (\<lambda>s symptom. s @ [symptom_line symptom]) (sections @ [symptoms_header]) syms
                 @ [[]]
          else sections)"

definition critical_line :: "symptom_dict \<Rightarrow> pystr" where
  "critical_line symptom = str ''   - '' @ py_format (py_get (sd_name symptom))
     @ str '' (severity: '' @ py_format (py_get (sd_severity symptom)) @ str '')''"

definition add_emergency :: "graph_data \<Rightarrow> pystr list \<Rightarrow> py_error + pystr list" where
  "add_emergency gd sections =
     (case gd_emergency_status gd of
        Absent \<Rightarrow> Inr sections
      | Null \<Rightarrow> Inl AttributeError
      | Present emergency \<Rightarrow>
          if truthy (py_get (ed_is_emergency emergency))
          then (case ed_critical_symptoms emergency of
                  Null \<Rightarrow> Inl TypeError
                | Absent \<Rightarrow> Inr (sections @ [emergency_header] @ [[]])
                | Present critical \<Rightarrow>
                    Inr (foldl (\<lambda>s symptom. s @ [critical_line symptom])
                           (sections @ [emergency_header]) critical @ [[]]))
          else Inr sections)"

definition appointment_line :: "appointment_dict \<Rightarrow> pystr" where
  "appointment_line appt = str ''- '' @ py_format (py_get (ad_date appt)) @ str '' at ''
     @ py_format (py_get (ad_time appt)) @ str '': '' @ py_format (py_get (ad_type appt))
     @ str '' with Dr. '' @ py_format (py_get (ad_doctor appt))"

definition add_appointments :: "graph_data \<Rightarrow> pystr list \<Rightarrow> pystr list" where
  "add_appointments gd sections =
     (case gd_appointments gd of
        None \<Rightarrow> sections
      | Some appts \<Rightarrow>
          if appts \<noteq> []
          then foldl (\<lambda>s appt. s @ [appointment_line appt])
                 (sections @ [appointments_header]) appts @ [[]]
          else sections)"

definition interaction_line :: "interaction_dict \<Rightarrow> pystr" where
  "interaction_line interaction = str ''      * ''
     @ py_format (py_get (id_current_med interaction)) @ str '': ''
     @ py_format (py_get (id_description interaction)) @ str '' (Severity: ''
     @ py_format (py_get (id_severity interaction)) @ str '')''"

definition add_safety :: "graph_data \<Rightarrow> pystr list \<Rightarrow> py_error + pystr list" where
  "add_safety gd sections =
     (case gd_medication_safety gd of
        Absent \<Rightarrow> Inr sections
      | Null \<Rightarrow> Inl AttributeError
      | Present safety \<Rightarrow>
          if \<not> truthy (py_get_default (sf_safe safety) (PBool True))
          then
            let s1 = sections @ [safety_header];
                s2 = (if truthy (py_get (sf_has_allergy safety))
                      then s1 @ [str ''   - ALLERGY RISK: ''
                                 @ py_format (py_get (sf_allergies safety))]
                      else s1);
                inters = get_or (sf_interactions safety) [];
                s3 = (if inters \<noteq> []
                      then foldl (\<lambda>s interaction. s @ [interaction_line interaction])
                             (s2 @ [str ''   - DRUG INTERACTIONS:'']) inters
                      else s2)
            in Inr (s3 @ [[]])
          else Inr sections)"

definition no_graph_data :: pystr where
  "no_graph_data = str ''No graph data available.''"

text \<open>The list \<open>sections\<close> at the end of \<^verbatim>\<open>_format_graph_data\<close>.\<close>

definition graph_sections :: "graph_data \<Rightarrow> py_error + pystr list" where
  "graph_sections gd =
     (case add_child gd [] of
        Inl e \<Rightarrow> Inl e
      | Inr s1 \<Rightarrow>
          (case add_emergency gd (add_symptoms gd (add_medications gd s1)) of
             Inl e \<Rightarrow> Inl e
           | Inr s4 \<Rightarrow> add_safety gd (add_appointments gd s4)))"

text \<open>
  \<^verbatim>\<open>_format_graph_data\<close>. \<^verbatim>\<open>not graph_data\<close> holds for \<^verbatim>\<open>None\<close> and for the empty
  dictionary.
\<close>

definition format_graph_data :: "graph_data option \<Rightarrow> py_error + pystr" where
  "format_graph_data graph_data =
     (case graph_data of
        None \<Rightarrow> Inr no_graph_data
      | Some gd \<Rightarrow>
          if gd = empty_graph_data then Inr no_graph_data
          else (case graph_sections gd of
                  Inl e \<Rightarrow> Inl e
                | Inr sections \<Rightarrow>
                    Inr (if sections \<noteq> [] then join [10] sections else no_graph_data)))"

text \<open>
  \<^verbatim>\<open>str.isspace\<close> on a code point, and \<^verbatim>\<open>str.strip()\<close>.
\<close>

definition isspace :: "nat \<Rightarrow> bool" where
  "isspace c = ((9 \<le> c \<and> c \<le> 13) \<or> (28 \<le> c \<and> c \<le> 32) \<or> c = 133 \<or> c = 160
     \<or> c = 5760 \<or> (8192 \<le> c \<and> c \<le> 8202) \<or> c = 8232 \<or> c = 8233 \<or> c = 8239
     \<or> c = 8287 \<or> c = 12288)"

definition strip :: "pystr \<Rightarrow> pystr" where
  "strip s = rev (dropWhile isspace (rev (dropWhile isspace s)))"

definition no_profile :: pystr where
  "no_profile = str ''No profile information available yet.''"

definition no_context :: pystr where
  "no_context = str ''No recent conversation history.''"

text \<open>
  \<^verbatim>\<open>create_query\<close>. \<open>format\<close> is \<^verbatim>\<open>str.format\<close> on the prompt template with the five
  keyword arguments, \<open>current_date\<close> the clock's text. An exception of \<open>format\<close> is
  caught; one of \<^verbatim>\<open>_format_graph_data\<close>, called before the \<^verbatim>\<open>try\<close>, is not.
\<close>

text \<open>\<^verbatim>\<open>profile or "No profile information available yet."\<close>\<close>

definition profile_str_of :: "pystr option \<Rightarrow> pystr" where
  "profile_str_of profile =
     (case profile of None \<Rightarrow> no_profile | Some p \<Rightarrow> if p = [] then no_profile else p)"

text \<open>\<^verbatim>\<open>f"{context}\n\n" if context else "No recent conversation history."\<close>\<close>

definition context_block_of :: "pystr option \<Rightarrow> pystr" where
  "context_block_of context =
     (case context of None \<Rightarrow> no_context
      | Some c \<Rightarrow> if c = [] then no_context else c @ [10, 10])"

text \<open>The keyword arguments of the call of \<^verbatim>\<open>format\<close>.\<close>

definition format_kwargs ::
    "pystr \<Rightarrow> pystr \<Rightarrow> pystr \<Rightarrow> pystr \<Rightarrow> pystr \<Rightarrow> (pystr \<times> pystr) list" where
  "format_kwargs current_date profile_str context_block graph_str query =
     [(str ''current_date'', current_date), (str ''profile'', profile_str),
      (str ''context_block'', context_block), (str ''graph_data'', graph_str),
      (str ''query'', query)]"

definition create_query ::
    "('t \<Rightarrow> (pystr \<times> pystr) list \<Rightarrow> py_error + pystr) \<Rightarrow> 't \<Rightarrow> pystr
       \<Rightarrow> pystr option \<Rightarrow> pystr option \<Rightarrow> pystr \<Rightarrow> graph_data option \<Rightarrow> py_error + pystr" where
  "create_query format prompt_template current_date profile context query graph_data =
     (if query = [] \<or> strip query = []
      then Inl (ValueError (str ''Query cannot be empty''))
      else
        let profile_str = profile_str_of profile;
            context_block = context_block_of context
        in case format_graph_data graph_data of
             Inl e \<Rightarrow> Inl e
           | Inr graph_str \<Rightarrow>
               (case format prompt_template
                       (format_kwargs current_date profile_str context_block graph_str query) of
                  Inr prompt \<Rightarrow> Inr prompt
                | Inl e \<Rightarrow>
                    Inr (profile_str @ [10, 10] @ context_block @ [10, 10] @ graph_str
                         @ [10, 10] @ query)))"

text \<open>
  A prompt template as \<^verbatim>\<open>str.format\<close> reads it, when each replacement field is a
  plain keyword name: literal text and fields. A field whose name is not among the
  keyword arguments raises \<^verbatim>\<open>KeyError\<close>.
\<close>

datatype piece = Lit pystr | Field pystr

fun format_pieces :: "piece list \<Rightarrow> (pystr \<times> pystr) list \<Rightarrow> py_error + pystr" where
  "format_pieces [] kwargs = Inr []"
| "format_pieces (Lit s # ps) kwargs =
     (case format_pieces ps kwargs of Inl e \<Rightarrow> Inl e | Inr r \<Rightarrow> Inr (s @ r))"
| "format_pieces (Field name # ps) kwargs =
     (case map_of kwargs name of
        None \<Rightarrow> Inl (KeyError name)
      | Some v \<Rightarrow> (case format_pieces ps kwargs of Inl e \<Rightarrow> Inl e | Inr r \<Rightarrow> Inr (v @ r)))"

section \<open>Scenarios\<close>

text \<open>
  Stores built with the operations above: the knowledge graph, the child Emma (age 5,
  18.5 kg, allergic to penicillin), a medication she takes and a symptom logged for
  her. \<open>ok\<close> reads the store out of an operation that did not raise.
\<close>

definition ok :: "py_error + graph \<Rightarrow> graph" where
  "ok r = (case r of Inr g \<Rightarrow> g | Inl e \<Rightarrow> empty_graph)"

definition emma_id :: pystr where
  "emma_id = str ''emma_demo''"

definition g_emma :: graph where
  "g_emma = create_or_update_child (initialize_knowledge_graph empty_graph) emma_id
              (str ''Emma'') 5 18.5 (Some [str ''penicillin''])"

definition g_ibuprofen :: graph where
  "g_ibuprofen = ok (add_medication g_emma (str ''2025-12-01T09:00:00'') emma_id
                       (str ''Ibuprofen'') (str ''100mg'') (str ''as needed'') None)"

definition g_aspirin :: graph where
  "g_aspirin = ok (add_medication g_emma (str ''2025-12-01T09:00:00'') emma_id
                     (str ''Aspirin'') (str ''81mg'') (str ''daily'') None)"

definition g_breathing :: graph where
  "g_breathing = ok (log_symptom g_ibuprofen 1000 emma_id (str ''breathing_difficulty'') 9 [])"

text \<open>Emma's store with one \<^verbatim>\<open>TAKES\<close> relationship, to Aspirin, whose \<open>active\<close> is false.\<close>

definition g_stopped :: graph where
  "g_stopped = g_emma\<lparr>takes :=
     [\<lparr>tk_child = emma_id, tk_med = str ''Aspirin'', tk_start_date = str ''2025-01-01'',
       tk_dosage = str ''81mg'', tk_active = False\<rparr>]\<rparr>"

definition ibuprofen_aspirin :: interacts_rel where
  "ibuprofen_aspirin = \<lparr>iw_from = str ''Ibuprofen'', iw_to = str ''Aspirin'',
     iw_severity = str ''moderate'', iw_description = str ''Increased bleeding risk''\<rparr>"

definition child_takes :: "graph \<Rightarrow> pystr \<Rightarrow> pystr \<Rightarrow> bool" where
  "child_takes g child_id name = (\<exists>t \<in> set (takes g). tk_child t = child_id \<and> tk_med t = name)"

definition interaction_found :: "interacts_rel \<Rightarrow> pystr \<Rightarrow> interaction_entry" where
  "interaction_found i current = \<lparr>ie_current_med = current, ie_severity = iw_severity i,
     ie_description = iw_description i\<rparr>"

definition sample_line :: dialogue_line where
  "sample_line = \<lparr>dl_query = Some (str ''Can I give ibuprofen for a fever?''),
     dl_expected_answer = Some (str ''Yes, if the child is over 6 months.'')\<rparr>"

definition sample_guide :: medication_guide where
  "sample_guide = \<lparr>mg_drug = Some (str ''Ibuprofen''), mg_forms = Some [str ''liquid''],
     mg_use = Some (str ''fever''), mg_safety = None, mg_storage = None, mg_notes = None\<rparr>"

text \<open>The graph data of the source's own test run.\<close>

definition test_graph_data :: graph_data where
  "test_graph_data =
     \<lparr>gd_child = Present \<lparr>cd_name = Some (PStr (str ''Emma'')), cd_age = Some (PInt 5),
          cd_weight_kg = Some (PObj True (str ''18.5'')),
          cd_allergies = Some [str ''penicillin'']\<rparr>,
      gd_medications = Some [\<lparr>md_medication = Some (PStr (str ''Ibuprofen'')),
          md_dosage = Some (PStr (str ''100mg'')),
          md_frequency = Some (PStr (str ''as needed''))\<rparr>],
      gd_symptoms = None,
      gd_emergency_status = Absent,
      gd_appointments = Some [\<lparr>ad_date = Some (PStr (str ''2025-12-20'')),
          ad_time = Some (PStr (str ''10:00 AM'')), ad_type = Some (PStr (str ''Checkup'')),
          ad_doctor = Some (PStr (str ''Smith''))\<rparr>],
      gd_medication_safety = Absent\<rparr>"

text \<open>A prompt template that names a field the call does not pass.\<close>

definition stale_template :: "piece list" where
  "stale_template = [Lit (str ''Question: ''), Field (str ''question'')]"








text \<open>
  A section as it stands in the rendered lines: nothing when it is not shown, and
  otherwise its header, its lines and the closing empty line.
\<close>

definition section_block :: "bool \<Rightarrow> pystr \<Rightarrow> pystr list \<Rightarrow> bool" where
  "section_block shown header block =
     (if shown then (\<exists>body. block = header # body @ [[]]) else block = [])"





section \<open>Properties\<close>

lemma starts_with_prefix: "starts_with hay needle \<longleftrightarrow> prefix needle hay"
  by (induction hay needle rule: starts_with.induct) auto

lemma contains_sublist: "contains hay needle \<longleftrightarrow> sublist needle hay"
proof (induction hay)
  case Nil
  then show ?case by simp
next
  case (Cons h hs)
  then show ?case
    by (simp add: starts_with_prefix sublist_Cons_right del: starts_with.simps)
qed

lemma remdups_replicate_eq: "remdups (replicate n c) = (if n = 0 then [] else [c])"
  by (induction n) auto

lemma collect_by_child_const:
  assumes "\<forall>r \<in> set rows. fst r = c"
  shows "collect_by_child rows =
           (if rows = [] then [] else [(c, map (\<lambda>r. entry_of (snd r)) rows)])"
proof (cases rows)
  case Nil
  then show ?thesis by (simp add: collect_by_child_def)
next
  case (Cons r rs)
  from assms have fsts: "map fst rows = replicate (length rows) c"
    by (induction rows) auto
  have rd: "remdups (map fst rows) = [c]"
    unfolding fsts remdups_replicate_eq using Cons by simp
  have flt: "filter (\<lambda>(c', h). c' = c) rows = rows"
    using assms by (auto intro!: filter_True)
  have ent: "(\<lambda>(c', h). \<lparr>se_name = hs_symptom h, se_severity = hs_severity h\<rparr>)
               = (\<lambda>r. entry_of (snd r))"
    by (auto simp: entry_of_def fun_eq_iff)
  have ne: "rows \<noteq> []"
    using Cons by simp
  show ?thesis
    using ne by (simp add: collect_by_child_def rd flt ent)
qed

lemma windowed_rows:
  "filter (\<lambda>(c, h). in_window now h) (match_has_symptom g child_id)
     = map (\<lambda>h. (child_id, h)) (windowed_reports g now child_id)"
proof (cases "children g child_id")
  case None
  then have "child_id \<notin> dom (children g)" by auto
  then show ?thesis
    using None by (simp add: match_has_symptom_def windowed_reports_def)
next
  case (Some c)
  then have "child_id \<in> dom (children g)" by auto
  then show ?thesis
    using Some
    by (auto simp: match_has_symptom_def windowed_reports_def in_window_def filter_map o_def
          intro!: filter_cong)
qed

lemma emergency_query_eq:
  "emergency_query g now child_id =
     (let recent = map entry_of (windowed_reports g now child_id);
          critical = filter (\<lambda>sx. se_severity sx \<ge> 8) recent
      in if recent = [] then []
         else [\<lparr>is_emergency = (critical \<noteq> []), critical_symptoms = critical,
                 recent_symptoms = recent\<rparr>])"
proof -
  have c: "\<forall>r \<in> set (map (\<lambda>h. (child_id, h)) (windowed_reports g now child_id)). fst r = child_id"
    by simp
  show ?thesis
    unfolding emergency_query_def windowed_rows collect_by_child_const [OF c]
    by (simp add: Let_def o_def)
qed

lemma check_emergency_status_eq:
  "check_emergency_status g now child_id =
     (let recent = map entry_of (windowed_reports g now child_id);
          critical = filter (\<lambda>sx. se_severity sx \<ge> 8) recent
      in \<lparr>is_emergency = (critical \<noteq> []), critical_symptoms = critical,
          recent_symptoms = recent\<rparr>)"
  by (simp add: check_emergency_status_def emergency_query_eq Let_def)

lemma filter_entry_of:
  "filter (\<lambda>sx. se_severity sx \<ge> 8) (map entry_of hs)
     = map entry_of (filter (\<lambda>h. hs_severity h \<ge> 8) hs)"
  by (induction hs) (auto simp: entry_of_def)

lemmas scenario_defs = g_emma_def g_ibuprofen_def g_aspirin_def g_breathing_def g_stopped_def
  emma_id_def ok_def add_medication_def log_symptom_def create_or_update_child_def
  initialize_knowledge_graph_def known_interactions_def merge_interaction_def
  merge_medication_def empty_graph_def blank_medication_def str_def Let_def

subsection \<open>Emergency status\<close>

text \<open>
  C1. For every store, time and child, \<open>check_emergency_status\<close> answers
  \<open>is_emergency\<close> exactly when one of the child's symptom reports of the last 24
  hours has severity at least 8; \<open>critical_symptoms\<close> lists exactly the reports of
  the window with severity at least 8 and \<open>recent_symptoms\<close> all reports of the
  window; with no report in the window the answer is \<open>is_emergency = False\<close> with
  both lists empty.
\<close>

theorem check_emergency_status_correct:
  "(is_emergency (check_emergency_status g now child_id)
      \<longleftrightarrow> (\<exists>h \<in> set (windowed_reports g now child_id). hs_severity h \<ge> 8))
   \<and> critical_symptoms (check_emergency_status g now child_id)
       = map entry_of (filter (\<lambda>h. hs_severity h \<ge> 8) (windowed_reports g now child_id))
   \<and> recent_symptoms (check_emergency_status g now child_id)
       = map entry_of (windowed_reports g now child_id)
   \<and> (windowed_reports g now child_id = [] \<longrightarrow>
        check_emergency_status g now child_id
          = \<lparr>is_emergency = False, critical_symptoms = [], recent_symptoms = []\<rparr>)"
  unfolding check_emergency_status_eq Let_def filter_entry_of
  by (auto simp: filter_empty_conv)

text \<open>
  Emma with no symptom logged is no emergency; with \<open>breathing_difficulty\<close> of
  severity 9 logged 1000 ns before the check she is one.
\<close>

theorem check_emergency_status_correct_witness:
  "windowed_reports g_ibuprofen 2000 emma_id = []
   \<and> check_emergency_status g_ibuprofen 2000 emma_id
       = \<lparr>is_emergency = False, critical_symptoms = [], recent_symptoms = []\<rparr>
   \<and> is_emergency (check_emergency_status g_breathing 2000 emma_id)
   \<and> critical_symptoms (check_emergency_status g_breathing 2000 emma_id)
       = [\<lparr>se_name = str ''breathing_difficulty'', se_severity = 9\<rparr>]"
proof -
  have w: "windowed_reports g_ibuprofen 2000 emma_id = []"
    by (simp add: windowed_reports_def scenario_defs)
  have b: "windowed_reports g_breathing 2000 emma_id
             = [\<lparr>hs_child = emma_id, hs_symptom = str ''breathing_difficulty'',
                 hs_reported_date = 1000, hs_severity = 9, hs_notes = []\<rparr>]"
    by (simp add: windowed_reports_def scenario_defs PT24H_def)
  show ?thesis
    using w check_emergency_status_correct [of g_ibuprofen 2000 emma_id]
      check_emergency_status_correct [of g_breathing 2000 emma_id]
    by (simp add: b entry_of_def)
qed

subsection \<open>Medication safety\<close>

lemma has_allergy_iff:
  "has_allergy (check_medication_safety toLower g child_id medication_name) \<longleftrightarrow>
     (\<exists>c. children g child_id = Some c
        \<and> (\<exists>allergy \<in> set (c_allergies c). contains (toLower medication_name) (toLower allergy)))"
  by (cases "children g child_id")
     (auto simp: check_medication_safety_def allergy_query_def list_ex_iff Let_def)

lemma penicillin_flags:
  "contains (str ''amoxicillin-penicillin'') (str ''penicillin'')"
  by (simp add: str_def)

lemma penicillin_passes:
  "\<not> contains (str ''amoxicillin'') (str ''penicillin'')"
  by (simp add: str_def)

lemma interaction_query_mem:
  assumes "children g child_id = Some c" "t \<in> set (takes g)" "tk_child t = child_id"
    and "tk_med t \<in> dom (medications g)" "new \<in> dom (medications g)"
    and "i \<in> set (interacts_with g)"
    and "(iw_from i = tk_med t \<and> iw_to i = new) \<or> (iw_from i = new \<and> iw_to i = tk_med t)"
  shows "interaction_found i (tk_med t) \<in> set (interaction_query g child_id new)"
  using assms unfolding interaction_query_def interaction_found_def
  by (auto simp: image_iff intro!: bexI [of _ t] bexI [of _ i])

lemmas query_defs = check_medication_safety_def allergy_query_def interaction_query_def
  ascii_lower_def ascii_lower_cp_def interaction_found_def ibuprofen_aspirin_def child_takes_def

text \<open>
  C2. For every child and candidate medication name, and whatever function the
  database's \<open>toLower\<close> is, \<open>has_allergy\<close> holds exactly when the lowercased
  candidate name contains the lowercased form of one of the child's allergy strings as
  a block. In particular, when \<open>toLower\<close> gives \<open>penicillin\<close>,
  \<open>amoxicillin-penicillin\<close> and \<open>amoxicillin\<close> for \<open>penicillin\<close>,
  \<open>Amoxicillin-Penicillin\<close> and \<open>Amoxicillin\<close>, a child allergic to
  \<open>penicillin\<close> has \<open>Amoxicillin-Penicillin\<close> flagged and \<open>Amoxicillin\<close> not.
\<close>

theorem allergy_substring_match:
  "(has_allergy (check_medication_safety toLower g child_id medication_name) \<longleftrightarrow>
      (\<exists>c. children g child_id = Some c
         \<and> (\<exists>allergy \<in> set (c_allergies c).
               sublist (toLower allergy) (toLower medication_name))))
   \<and> (\<forall>c. children g child_id = Some c \<and> c_allergies c = [str ''penicillin'']
           \<and> toLower (str ''penicillin'') = str ''penicillin''
           \<and> toLower (str ''Amoxicillin-Penicillin'') = str ''amoxicillin-penicillin''
           \<and> toLower (str ''Amoxicillin'') = str ''amoxicillin'' \<longrightarrow>
         has_allergy (check_medication_safety toLower g child_id (str ''Amoxicillin-Penicillin''))
         \<and> \<not> has_allergy (check_medication_safety toLower g child_id (str ''Amoxicillin'')))"
proof (intro conjI allI impI)
  show "has_allergy (check_medication_safety toLower g child_id medication_name) \<longleftrightarrow>
      (\<exists>c. children g child_id = Some c
         \<and> (\<exists>allergy \<in> set (c_allergies c).
               sublist (toLower allergy) (toLower medication_name)))"
    by (simp add: has_allergy_iff contains_sublist)
next
  fix c
  assume "children g child_id = Some c \<and> c_allergies c = [str ''penicillin'']
           \<and> toLower (str ''penicillin'') = str ''penicillin''
           \<and> toLower (str ''Amoxicillin-Penicillin'') = str ''amoxicillin-penicillin''
           \<and> toLower (str ''Amoxicillin'') = str ''amoxicillin''"
  then show "has_allergy (check_medication_safety toLower g child_id
                (str ''Amoxicillin-Penicillin''))"
    using penicillin_flags by (simp add: has_allergy_iff)
next
  fix c
  assume "children g child_id = Some c \<and> c_allergies c = [str ''penicillin'']
           \<and> toLower (str ''penicillin'') = str ''penicillin''
           \<and> toLower (str ''Amoxicillin-Penicillin'') = str ''amoxicillin-penicillin''
           \<and> toLower (str ''Amoxicillin'') = str ''amoxicillin''"
  then show "\<not> has_allergy (check_medication_safety toLower g child_id (str ''Amoxicillin''))"
    using penicillin_passes by (simp add: has_allergy_iff)
qed

text \<open>
  Emma is allergic to penicillin, and \<open>ascii_lower\<close> lowers the three names as the
  database does.
\<close>

theorem allergy_substring_match_witness:
  "(\<exists>c. children g_emma emma_id = Some c \<and> c_allergies c = [str ''penicillin''])
   \<and> ascii_lower (str ''penicillin'') = str ''penicillin''
   \<and> ascii_lower (str ''Amoxicillin-Penicillin'') = str ''amoxicillin-penicillin''
   \<and> ascii_lower (str ''Amoxicillin'') = str ''amoxicillin''
   \<and> has_allergy (check_medication_safety ascii_lower g_emma emma_id
        (str ''Amoxicillin-Penicillin''))
   \<and> \<not> has_allergy (check_medication_safety ascii_lower g_emma emma_id (str ''Amoxicillin''))"
proof -
  have h: "\<exists>c. children g_emma emma_id = Some c \<and> c_allergies c = [str ''penicillin'']"
    by (simp add: scenario_defs)
  have l1: "ascii_lower (str ''penicillin'') = str ''penicillin''"
    by (simp add: ascii_lower_def ascii_lower_cp_def str_def)
  have l2: "ascii_lower (str ''Amoxicillin-Penicillin'') = str ''amoxicillin-penicillin''"
    by (simp add: ascii_lower_def ascii_lower_cp_def str_def)
  have l3: "ascii_lower (str ''Amoxicillin'') = str ''amoxicillin''"
    by (simp add: ascii_lower_def ascii_lower_cp_def str_def)
  show ?thesis
    using h l1 l2 l3 allergy_substring_match [of ascii_lower g_emma emma_id "[]"] by blast
qed

text \<open>
  C3. For every child and candidate medication, the verdict has
  \<open>safe = (\<not> has_allergy \<and> interactions = [])\<close>.
\<close>

theorem safe_verdict_equation:
  "safe (check_medication_safety toLower g child_id medication_name)
     = (\<not> has_allergy (check_medication_safety toLower g child_id medication_name)
        \<and> interactions (check_medication_safety toLower g child_id medication_name) = [])"
  by (cases "single (allergy_query toLower g child_id medication_name)")
     (simp_all add: check_medication_safety_def Let_def)

text \<open>
  C5. For every stored interaction fact \<open>i\<close> between two Medication nodes and every
  stored child, the check finds \<open>i\<close> (and answers unsafe) when the child takes the
  medication \<open>i\<close> starts from and the candidate is the one it ends in, and also when
  the child takes the one it ends in and the candidate is the one it starts from.
\<close>

theorem interaction_symmetric:
  assumes "i \<in> set (interacts_with g)"
    and "iw_from i \<in> dom (medications g)" and "iw_to i \<in> dom (medications g)"
    and "child_id \<in> dom (children g)"
  shows "(child_takes g child_id (iw_from i) \<longrightarrow>
            interaction_found i (iw_from i)
              \<in> set (interactions (check_medication_safety toLower g child_id (iw_to i)))
            \<and> \<not> safe (check_medication_safety toLower g child_id (iw_to i)))
       \<and> (child_takes g child_id (iw_to i) \<longrightarrow>
            interaction_found i (iw_to i)
              \<in> set (interactions (check_medication_safety toLower g child_id (iw_from i)))
            \<and> \<not> safe (check_medication_safety toLower g child_id (iw_from i)))"
proof -
  from assms(4) obtain c where c: "children g child_id = Some c" by auto
  have ints: "\<And>m. interactions (check_medication_safety toLower g child_id m)
                  = interaction_query g child_id m"
    by (simp add: check_medication_safety_def Let_def)
  have unsafe: "\<And>m x. x \<in> set (interaction_query g child_id m)
                  \<Longrightarrow> \<not> safe (check_medication_safety toLower g child_id m)"
    by (auto simp: check_medication_safety_def Let_def)
  have fwd: "interaction_found i (iw_from i) \<in> set (interaction_query g child_id (iw_to i))"
    if "child_takes g child_id (iw_from i)"
  proof -
    from that obtain t where t: "t \<in> set (takes g)" "tk_child t = child_id" "tk_med t = iw_from i"
      by (auto simp: child_takes_def)
    show ?thesis
      using interaction_query_mem [OF c t(1) t(2) _ assms(3) assms(1)] t(3) assms(2) by simp
  qed
  have bwd: "interaction_found i (iw_to i) \<in> set (interaction_query g child_id (iw_from i))"
    if "child_takes g child_id (iw_to i)"
  proof -
    from that obtain t where t: "t \<in> set (takes g)" "tk_child t = child_id" "tk_med t = iw_to i"
      by (auto simp: child_takes_def)
    show ?thesis
      using interaction_query_mem [OF c t(1) t(2) _ assms(2) assms(1)] t(3) assms(3) by simp
  qed
  show ?thesis
    using fwd bwd unsafe by (auto simp: ints)
qed

text \<open>
  The knowledge graph stores the fact from Ibuprofen to Aspirin. It is found for a
  child on Ibuprofen asked about Aspirin, and for a child on Aspirin asked about
  Ibuprofen.
\<close>

theorem interaction_symmetric_witness:
  "ibuprofen_aspirin \<in> set (interacts_with g_ibuprofen)
   \<and> child_takes g_ibuprofen emma_id (str ''Ibuprofen'')
   \<and> interaction_found ibuprofen_aspirin (str ''Ibuprofen'')
       \<in> set (interactions (check_medication_safety ascii_lower g_ibuprofen emma_id (str ''Aspirin'')))
   \<and> ibuprofen_aspirin \<in> set (interacts_with g_aspirin)
   \<and> child_takes g_aspirin emma_id (str ''Aspirin'')
   \<and> interaction_found ibuprofen_aspirin (str ''Aspirin'')
       \<in> set (interactions (check_medication_safety ascii_lower g_aspirin emma_id (str ''Ibuprofen'')))"
proof -
  have f: "iw_from ibuprofen_aspirin = str ''Ibuprofen''" "iw_to ibuprofen_aspirin = str ''Aspirin''"
    by (simp_all add: ibuprofen_aspirin_def)
  have a1: "ibuprofen_aspirin \<in> set (interacts_with g_ibuprofen)"
    by (simp add: scenario_defs ibuprofen_aspirin_def)
  have a2: "iw_from ibuprofen_aspirin \<in> dom (medications g_ibuprofen)"
    by (simp add: scenario_defs ibuprofen_aspirin_def)
  have a3: "iw_to ibuprofen_aspirin \<in> dom (medications g_ibuprofen)"
    by (simp add: scenario_defs ibuprofen_aspirin_def)
  have a4: "emma_id \<in> dom (children g_ibuprofen)"
    by (simp add: scenario_defs)
  have a5: "child_takes g_ibuprofen emma_id (str ''Ibuprofen'')"
    by (simp add: scenario_defs child_takes_def)
  have b1: "ibuprofen_aspirin \<in> set (interacts_with g_aspirin)"
    by (simp add: scenario_defs ibuprofen_aspirin_def)
  have b2: "iw_from ibuprofen_aspirin \<in> dom (medications g_aspirin)"
    by (simp add: scenario_defs ibuprofen_aspirin_def)
  have b3: "iw_to ibuprofen_aspirin \<in> dom (medications g_aspirin)"
    by (simp add: scenario_defs ibuprofen_aspirin_def)
  have b4: "emma_id \<in> dom (children g_aspirin)"
    by (simp add: scenario_defs)
  have b5: "child_takes g_aspirin emma_id (str ''Aspirin'')"
    by (simp add: scenario_defs child_takes_def)
  show ?thesis
    using interaction_symmetric [OF a1 a2 a3 a4] interaction_symmetric [OF b1 b2 b3 b4]
      a1 a5 b1 b5
    unfolding f by blast
qed

text \<open>
  C4. The check is to report interactions for the medications of the child's active
  \<^verbatim>\<open>TAKES\<close> relationships only. On Emma's store with a single, inactive
  relationship to Aspirin, \<open>get_active_medications\<close> lists nothing, and the check
  for Ibuprofen still reports the interaction with Aspirin and answers unsafe.
\<close>

theorem inactive_medication_still_checked:
  "get_active_medications g_stopped emma_id = []
   \<and> interactions (check_medication_safety toLower g_stopped emma_id (str ''Ibuprofen''))
       = [interaction_found ibuprofen_aspirin (str ''Aspirin'')]
   \<and> \<not> safe (check_medication_safety toLower g_stopped emma_id (str ''Ibuprofen''))"
  by (simp add: get_active_medications_def query_defs scenario_defs)

subsection \<open>Writing records and ingestion\<close>

text \<open>The medication loop's body is an upsert: a second run on the same line changes nothing.\<close>

lemma load_medication_guide_idem:
  "load_medication_guide g data = Inr g' \<Longrightarrow> load_medication_guide g' data = Inr g'"
  by (auto simp: load_medication_guide_def merge_medication_def Let_def
        split: option.splits)

text \<open>
  C9. A second run of the ingestion is to leave the store as the first run left it.
  The dialogue loop creates a node per line on every run: loading one line twice
  leaves two \<open>SampleDialogue\<close> nodes, a store other than the one after the first
  run.
\<close>

theorem dialogue_load_duplicates:
  "length (dialogues (load_dialogues empty_graph [sample_line])) = 1
   \<and> length (dialogues (load_dialogues (load_dialogues empty_graph [sample_line])
                          [sample_line])) = 2
   \<and> load_dialogues (load_dialogues empty_graph [sample_line]) [sample_line]
       \<noteq> load_dialogues empty_graph [sample_line]"
proof -
  have 1: "length (dialogues (load_dialogues empty_graph [sample_line])) = 1"
    by (simp add: load_dialogues_def load_dialogue_def empty_graph_def)
  have 2: "length (dialogues (load_dialogues (load_dialogues empty_graph [sample_line])
                          [sample_line])) = 2"
    by (simp add: load_dialogues_def load_dialogue_def empty_graph_def)
  from 1 2 show ?thesis by auto
qed

text \<open>
  C10. A stored symptom report is to carry a severity from 1 to 10. \<open>log_symptom\<close>
  called for Emma with severity 11 stores a report of severity 11.
\<close>

theorem log_symptom_stores_any_severity:
  "(case log_symptom g_emma 1000 emma_id (str ''fever_c'') 11 [] of
      Inl e \<Rightarrow> False
    | Inr g \<Rightarrow> map hs_severity (has_symptom g) = [11])"
  by (simp add: scenario_defs)

subsection \<open>Prompt assembly\<close>

lemma dropWhile_all_iff: "(\<forall>x \<in> set (dropWhile P xs). P x) \<longleftrightarrow> (\<forall>x \<in> set xs. P x)"
proof
  assume a: "\<forall>x \<in> set (dropWhile P xs). P x"
  have "dropWhile P xs = []"
  proof (rule ccontr)
    assume n: "dropWhile P xs \<noteq> []"
    then have "\<not> P (hd (dropWhile P xs))" by (rule hd_dropWhile)
    moreover from n have "hd (dropWhile P xs) \<in> set (dropWhile P xs)" by simp
    ultimately show False using a by blast
  qed
  then show "\<forall>x \<in> set xs. P x" by (simp add: dropWhile_eq_Nil_conv)
next
  assume "\<forall>x \<in> set xs. P x"
  then show "\<forall>x \<in> set (dropWhile P xs). P x"
    by (auto dest: set_dropWhileD)
qed

lemma strip_empty_iff: "strip s = [] \<longleftrightarrow> list_all isspace s"
  by (simp add: strip_def dropWhile_eq_Nil_conv dropWhile_all_iff list_all_iff)

lemma blank_query_iff: "(query = [] \<or> strip query = []) \<longleftrightarrow> list_all isspace query"
  by (auto simp: strip_empty_iff)

text \<open>
  C6. For every profile, context and graph data (and whatever the template and
  \<open>format\<close> are), \<open>create_query\<close> on a question that is empty or made of white
  space only raises \<^verbatim>\<open>ValueError("Query cannot be empty")\<close>, the exception the
  specification calls \<open>EmptyQueryError\<close>: the result is the error, no text is
  produced and \<open>format\<close> has no part in it.
\<close>

theorem create_query_blank:
  "list_all isspace query \<Longrightarrow>
     create_query format prompt_template current_date profile context query graph_data
       = Inl (ValueError (str ''Query cannot be empty''))"
  using blank_query_iff [of query] by (simp add: create_query_def)

text \<open>The empty question and a question of a space, a tab and a newline.\<close>

theorem create_query_blank_witness:
  "list_all isspace [] \<and> list_all isspace [32, 9, 10]
   \<and> create_query format_pieces stale_template [] None None [] (Some test_graph_data)
       = Inl (ValueError (str ''Query cannot be empty''))
   \<and> create_query format_pieces [Field (str ''query'')] [] None None [32, 9, 10] None
       = Inl (ValueError (str ''Query cannot be empty''))"
proof -
  have 1: "list_all isspace []" by simp
  have 2: "list_all isspace [32, 9, 10]" by (simp add: isspace_def)
  show ?thesis
    using 1 2 create_query_blank [OF 1, of format_pieces stale_template "[]" None None
                                   "Some test_graph_data"]
      create_query_blank [OF 2, of format_pieces "[Field (str ''query'')]" "[]" None None None]
    by simp
qed




lemma block_shown: "section_block True h (h # body @ [[]])"
  by (auto simp: section_block_def)

lemma block_shown': "section_block True h [h, []]"
  using block_shown [of h "[]"] by simp





















end
